theory Spec2Isabelle
  imports Complex_Main "HOL-Library.Word"
begin

section \<open>JavaScript values\<close>

text \<open>
  A JavaScript string is a sequence of UTF-16 code units. Literals of the source are
  written \<open>js ''...''\<close>; a character outside ASCII is given by its code units.
\<close>

type_synonym jsstring = "16 word list"

definition js :: "string \<Rightarrow> jsstring" where
  "js s = map of_char s"

text \<open>
  The values a payload field can hold. A number is only carried from the reply to the
  screen, never computed with. Reading a property that an object does not have yields
  \<open>Undefined\<close>.
\<close>

datatype jsval = Undefined | Null | Bool bool | Num rat | Str jsstring

type_synonym obj = "(string \<times> jsval) list"

definition property :: "obj \<Rightarrow> string \<Rightarrow> jsval" where
  "property ob k = (case map_of ob k of None \<Rightarrow> Undefined | Some v \<Rightarrow> v)"

text \<open>
  \<open>String.prototype.trim\<close> strips white space and line terminators from both ends: TAB,
  LF, VT, FF, CR, SP, NBSP, the other space separators, LS, PS and the byte order mark.
\<close>

definition is_white_space :: "16 word \<Rightarrow> bool" where
  "is_white_space c \<longleftrightarrow>
     c = 0x09 \<or> c = 0x0A \<or> c = 0x0B \<or> c = 0x0C \<or> c = 0x0D \<or> c = 0x20 \<or> c = 0xA0 \<or>
     c = 0x1680 \<or> (0x2000 \<le> c \<and> c \<le> 0x200A) \<or> c = 0x2028 \<or> c = 0x2029 \<or>
     c = 0x202F \<or> c = 0x205F \<or> c = 0x3000 \<or> c = 0xFEFF"

definition trim :: "jsstring \<Rightarrow> jsstring" where
  "trim s = rev (dropWhile is_white_space (rev (dropWhile is_white_space s)))"

datatype js_error = TypeError | RequestError | SyntaxError

section \<open>The chat hook (hooks/useChat.js)\<close>

record request =
  url :: jsstring
  body :: obj

text \<open>
  The \<open>response\<close> object of a reply body, with the payload of every action. The reply
  body itself may lack the \<open>response\<close> field, which then reads as undefined (\<open>None\<close>).
\<close>

record chat_response =
  action :: jsstring
  message :: jsstring
  res_slots :: "obj list"
  details :: obj
  res_doctors :: "obj list"

record reply_body =
  response :: "chat_response option"

datatype post_outcome = Rejects | Resolves reply_body

text \<open>
  \<open>mutationFn\<close> posts \<open>{ message, session_id: sessionId }\<close> and returns
  \<open>res.data.response\<close>; the promise rejects when the post does. The server is a
  function from the request to the outcome of the post.
\<close>

definition post_request :: "jsstring \<Rightarrow> jsstring \<Rightarrow> request" where
  "post_request sessionId msg =
     \<lparr>url = js ''http://localhost:8000/api/chat'',
      body = [(''message'', Str msg), (''session_id'', Str sessionId)]\<rparr>"

definition mutationFn ::
  "(request \<Rightarrow> post_outcome) \<Rightarrow> jsstring \<Rightarrow> jsstring \<Rightarrow> js_error + chat_response option" where
  "mutationFn net sessionId msg =
     (case net (post_request sessionId msg) of
        Rejects \<Rightarrow> Inl RequestError
      | Resolves res_data \<Rightarrow> Inr (response res_data))"

section \<open>The chat screen (components/ChatScreen.jsx)\<close>

record msg =
  sender :: jsstring
  msg_text :: jsstring

text \<open>
  The state of the component, the browser's local storage, and the requests posted so
  far. \<open>bookingDetails\<close> is \<open>None\<close> for null.
\<close>

record client =
  session :: jsstring
  messages :: "msg list"
  slots :: "obj list"
  bookingDetails :: "obj option"
  loading :: bool
  initialized :: bool
  doctors :: "obj list"
  localStorage :: "string \<rightharpoonup> jsstring"
  posted :: "request list"

definition agent_msg :: "jsstring \<Rightarrow> msg" where
  "agent_msg t = \<lparr>sender = js ''agent'', msg_text = t\<rparr>"

definition user_msg :: "jsstring \<Rightarrow> msg" where
  "user_msg t = \<lparr>sender = js ''user'', msg_text = t\<rparr>"

definition apology :: jsstring where
  "apology = js ''Sorry, something went wrong. Please try again.''"

subsection \<open>sendUserMessage\<close>

text \<open>
  The four \<open>if\<close> statements of the \<open>try\<close> block, in the order of the source.
\<close>

definition dispatch :: "chat_response \<Rightarrow> client \<Rightarrow> client" where
  "dispatch res st =
     (let st1 = (if action res = js ''reply''
                 then st\<lparr>messages := messages st @ [agent_msg (message res)]\<rparr> else st);
          st2 = (if action res = js ''slots''
                 then st1\<lparr>messages := messages st1 @ [agent_msg (message res)],
                          slots := res_slots res\<rparr> else st1);
          st3 = (if action res = js ''booking_confirmed''
                 then st2\<lparr>messages := messages st2 @ [agent_msg (message res)],
                          bookingDetails := Some (details res)\<rparr> else st2);
          st4 = (if action res = js ''doctors''
                 then st3\<lparr>messages := messages st3 @ [agent_msg (message res)],
                          doctors := res_doctors res\<rparr> else st3)
      in st4)"

text \<open>
  The statements of \<open>sendUserMessage\<close> between the test of the text and the \<open>await\<close>:
  the user message is appended, the slots are cleared in the state and in the storage,
  the loading flag is raised and the request is posted.
\<close>

definition before_await :: "jsstring \<Rightarrow> client \<Rightarrow> client" where
  "before_await t st =
     st\<lparr>messages := messages st @ [user_msg t],
        slots := [],
        localStorage := (localStorage st)(''chat_slots'' := None),
        loading := True,
        posted := posted st @ [post_request (session st) t]\<rparr>"

text \<open>
  The part of \<open>sendUserMessage\<close> that runs before the \<open>await\<close>. \<open>None\<close> means that the
  function ends without any effect: the early return on a blank text, or the type error of
  \<open>text.trim()\<close> on a value that is not a string, which rejects the promise of the
  asynchronous function. Otherwise the text is returned with the state at the \<open>await\<close>.
\<close>

definition send_begin :: "jsval \<Rightarrow> client \<Rightarrow> (jsstring \<times> client) option" where
  "send_begin v st =
     (case v of
        Str t \<Rightarrow> if trim t = [] then None else Some (t, before_await t st)
      | _ \<Rightarrow> None)"

text \<open>
  The \<open>try\<close> block once the promise has settled: a rejection is thrown at the
  \<open>await\<close>, an undefined \<open>res\<close> throws a type error at \<open>res.action\<close>, and both happen
  before any update of the state.
\<close>

definition try_block :: "js_error + chat_response option \<Rightarrow> client \<Rightarrow> js_error + client" where
  "try_block settled st =
     (case settled of
        Inl e \<Rightarrow> Inl e
      | Inr None \<Rightarrow> Inl TypeError
      | Inr (Some res) \<Rightarrow> Inr (dispatch res st))"

definition catch_block :: "client \<Rightarrow> client" where
  "catch_block st = st\<lparr>messages := messages st @ [agent_msg apology]\<rparr>"

definition send_finish :: "js_error + chat_response option \<Rightarrow> client \<Rightarrow> client" where
  "send_finish settled st =
     (let st' = (case try_block settled st of Inl e \<Rightarrow> catch_block st | Inr st1 \<Rightarrow> st1)
      in st'\<lparr>loading := False\<rparr>)"

definition sendUserMessage :: "(request \<Rightarrow> post_outcome) \<Rightarrow> jsval \<Rightarrow> client \<Rightarrow> client" where
  "sendUserMessage net v st =
     (case send_begin v st of
        None \<Rightarrow> st
      | Some (t, st1) \<Rightarrow> send_finish (mutationFn net (session st) t) st1)"

text \<open>
  Nothing stops a second call of \<open>sendUserMessage\<close> while the promise of the first is
  pending, so the part before the \<open>await\<close> of one call and the part after the \<open>await\<close>
  of another may follow each other in any order. An event is either of the two.
\<close>

datatype event = Sent jsval | Settled "js_error + chat_response option"

definition handle_event :: "client \<Rightarrow> event \<Rightarrow> client" where
  "handle_event st ev =
     (case ev of
        Sent v \<Rightarrow> (case send_begin v st of None \<Rightarrow> st | Some (t, st1) \<Rightarrow> st1)
      | Settled settled \<Rightarrow> send_finish settled st)"

text \<open>
  Modelled from the spec: the fixed set of actions of a response (sections 4.7 and 6); the
  backend that emits the responses is missing.
\<close>

definition response_actions :: "jsstring set" where
  "response_actions =
     {js ''reply'', js ''slots'', js ''doctors'', js ''booking_confirmed'', js ''cancelled''}"

text \<open>The actions that \<open>sendUserMessage\<close> tests for.\<close>

definition handled_actions :: "jsstring set" where
  "handled_actions = {js ''reply'', js ''slots'', js ''booking_confirmed'', js ''doctors''}"

subsection \<open>The session identifier, the page load and clearChat\<close>

text \<open>
  The initialiser of the \<open>session\<close> state. \<open>uuid\<close> is the value that
  \<open>crypto.randomUUID()\<close> returns when it is called; \<open>!id\<close> holds for null and for the
  empty string.
\<close>

definition init_session ::
  "jsstring \<Rightarrow> (string \<rightharpoonup> jsstring) \<Rightarrow> jsstring \<times> (string \<rightharpoonup> jsstring)" where
  "init_session uuid ls =
     (case ls ''session_id'' of
        None \<Rightarrow> (uuid, ls(''session_id'' \<mapsto> uuid))
      | Some i \<Rightarrow> if i = [] then (uuid, ls(''session_id'' \<mapsto> uuid)) else (i, ls))"

definition page_load :: "jsstring \<Rightarrow> (string \<rightharpoonup> jsstring) \<Rightarrow> client" where
  "page_load uuid ls =
     (case init_session uuid ls of
        (i, ls') \<Rightarrow>
          \<lparr>session = i, messages = [], slots = [], bookingDetails = None, loading = False,
           initialized = False, doctors = [], localStorage = ls', posted = []\<rparr>)"

text \<open>
  \<open>clearChat\<close> removes the four keys and reloads the page; \<open>uuid\<close> is what
  \<open>crypto.randomUUID()\<close> returns on the reloaded page.
\<close>

definition clearChat_storage :: "(string \<rightharpoonup> jsstring) \<Rightarrow> (string \<rightharpoonup> jsstring)" where
  "clearChat_storage ls =
     ls(''chat_messages'' := None, ''chat_slots'' := None, ''chat_booking'' := None,
        ''session_id'' := None)"

definition clearChat :: "jsstring \<Rightarrow> client \<Rightarrow> client" where
  "clearChat uuid st = page_load uuid (clearChat_storage (localStorage st))"

subsection \<open>Restoring and persisting the chat\<close>

text \<open>
  \<open>JSON.parse\<close> and \<open>JSON.stringify\<close> belong to the language, not to the program: they
  are parameters, at the three types they are used at. A parser returns \<open>None\<close> where
  \<open>JSON.parse\<close> throws a syntax error.
\<close>

record json_parse =
  parse_messages :: "jsstring \<Rightarrow> msg list option"
  parse_slots :: "jsstring \<Rightarrow> obj list option"
  parse_booking :: "jsstring \<Rightarrow> obj option"

definition greeting :: jsstring where
  "greeting = js ''Hello '' @ [0xD83D, 0xDC4B] @ js ''! I can help you schedule an appointment.''
     @ [0x0A, 0x0A] @ js ''What brings you in today?''"

text \<open>\<open>if (m)\<close> on the result of \<open>getItem\<close>: null and the empty string are falsy.\<close>

definition truthy :: "jsstring option \<Rightarrow> bool" where
  "truthy m = (case m of None \<Rightarrow> False | Some s \<Rightarrow> s \<noteq> [])"

definition restore_messages :: "json_parse \<Rightarrow> client \<Rightarrow> js_error + client" where
  "restore_messages J st =
     (case localStorage st ''chat_messages'' of
        None \<Rightarrow> Inr (st\<lparr>messages := [agent_msg greeting]\<rparr>)
      | Some m \<Rightarrow>
          if truthy (Some m)
          then (case parse_messages J m of
                  None \<Rightarrow> Inl SyntaxError
                | Some parsed \<Rightarrow> Inr (st\<lparr>messages := parsed\<rparr>))
          else Inr (st\<lparr>messages := [agent_msg greeting]\<rparr>))"

definition restore_slots :: "json_parse \<Rightarrow> client \<Rightarrow> js_error + client" where
  "restore_slots J st =
     (case localStorage st ''chat_slots'' of
        None \<Rightarrow> Inr st
      | Some s \<Rightarrow>
          if truthy (Some s)
          then (case parse_slots J s of
                  None \<Rightarrow> Inl SyntaxError
                | Some parsed \<Rightarrow> Inr (st\<lparr>slots := parsed\<rparr>))
          else Inr st)"

definition restore_booking :: "json_parse \<Rightarrow> client \<Rightarrow> js_error + client" where
  "restore_booking J st =
     (case localStorage st ''chat_booking'' of
        None \<Rightarrow> Inr st
      | Some b \<Rightarrow>
          if truthy (Some b)
          then (case parse_booking J b of
                  None \<Rightarrow> Inl SyntaxError
                | Some parsed \<Rightarrow> Inr (st\<lparr>bookingDetails := Some parsed\<rparr>))
          else Inr st)"

text \<open>The effect that runs once on mount; an exception leaves it at once.\<close>

definition restore :: "json_parse \<Rightarrow> client \<Rightarrow> js_error + client" where
  "restore J st =
     (case restore_messages J st of
        Inl e \<Rightarrow> Inl e
      | Inr st1 \<Rightarrow>
          (case restore_slots J st1 of
             Inl e \<Rightarrow> Inl e
           | Inr st2 \<Rightarrow>
               (case restore_booking J st2 of
                  Inl e \<Rightarrow> Inl e
                | Inr st3 \<Rightarrow> Inr (st3\<lparr>initialized := True\<rparr>))))"

text \<open>
  The three persisting effects; each runs after a render in which one of its
  dependencies has changed. The argument \<open>stringify\<close> is \<open>JSON.stringify\<close>.
\<close>

definition persist_messages :: "(msg list \<Rightarrow> jsstring) \<Rightarrow> client \<Rightarrow> client" where
  "persist_messages stringify st =
     (if \<not> initialized st then st
      else st\<lparr>localStorage := (localStorage st)(''chat_messages'' \<mapsto> stringify (messages st))\<rparr>)"

definition persist_slots :: "(obj list \<Rightarrow> jsstring) \<Rightarrow> client \<Rightarrow> client" where
  "persist_slots stringify st =
     (if \<not> initialized st then st
      else st\<lparr>localStorage := (localStorage st)(''chat_slots'' \<mapsto> stringify (slots st))\<rparr>)"

definition persist_booking :: "(obj \<Rightarrow> jsstring) \<Rightarrow> client \<Rightarrow> client" where
  "persist_booking stringify st =
     (if \<not> initialized st then st
      else (case bookingDetails st of
              None \<Rightarrow> st
            | Some d \<Rightarrow> st\<lparr>localStorage := (localStorage st)(''chat_booking'' \<mapsto> stringify d)\<rparr>))"

section \<open>The input box (components/ChatInput.jsx)\<close>

text \<open>
  \<open>send\<close> on the text of the input box and the state that \<open>onSend\<close> acts on; the first
  component of the result is the text left in the box.
\<close>

definition send :: "(jsval \<Rightarrow> 'w \<Rightarrow> 'w) \<Rightarrow> jsstring \<Rightarrow> 'w \<Rightarrow> jsstring \<times> 'w" where
  "send onSend t w = (if trim t = [] then (t, w) else ([], onSend (Str t) w))"

section \<open>The slot buttons and the doctor cards\<close>

text \<open>
  What a component renders, as far as it depends on its properties: the texts put on
  the screen and the event that a click raises. \<open>SlotSelector\<close> renders nothing
  (\<open>None\<close>) for an empty list.
\<close>

record 'e slot_button =
  slot_click :: 'e
  slot_label :: jsval
  slot_sublabel :: jsval

definition SlotSelector :: "obj list \<Rightarrow> (jsval \<Rightarrow> 'e) \<Rightarrow> 'e slot_button list option" where
  "SlotSelector ss onSelect =
     (if ss = [] then None
      else Some (map (\<lambda>slot. \<lparr>slot_click = onSelect (property slot ''start_time''),
                               slot_label = property slot ''start_time'',
                               slot_sublabel = property slot ''doctor_name''\<rparr>) ss))"

record 'e doctor_card =
  card_click :: 'e
  img_src :: jsval
  img_alt :: jsval
  card_name :: jsval
  card_specialization :: jsval
  card_rating :: jsval

definition DoctorCard :: "obj \<Rightarrow> (obj \<Rightarrow> 'e) \<Rightarrow> 'e doctor_card" where
  "DoctorCard doctor onSelect =
     \<lparr>card_click = onSelect doctor,
      img_src = property doctor ''image'',
      img_alt = property doctor ''name'',
      card_name = property doctor ''name'',
      card_specialization = property doctor ''specialization'',
      card_rating = property doctor ''rating''\<rparr>"

text \<open>
  \<open>DoctorList\<close> renders a fixed paragraph for an empty list, and otherwise one card for
  each doctor, under the key \<open>doc.id\<close>.
\<close>

datatype 'e doctor_list = NoDoctorsAvailable | Cards "(jsval \<times> 'e doctor_card) list"

definition DoctorList :: "obj list \<Rightarrow> (obj \<Rightarrow> 'e) \<Rightarrow> 'e doctor_list" where
  "DoctorList ds onSelect =
     (if ds = [] then NoDoctorsAvailable
      else Cards (map (\<lambda>doc. (property doc ''id'', DoctorCard doc onSelect)) ds))"

text \<open>The cards that \<open>DoctorList\<close> renders, without their keys.\<close>

fun cards_of :: "'e doctor_list \<Rightarrow> 'e doctor_card list" where
  "cards_of NoDoctorsAvailable = []"
| "cards_of (Cards cs) = map snd cs"

subsection \<open>Their use in the chat screen\<close>

text \<open>
  The handler that the chat screen gives to \<open>DoctorList\<close>: \<open>sendUserMessage(d.name)\<close> runs
  up to its \<open>await\<close>, then \<open>setDoctors([])\<close>, and the rest of \<open>sendUserMessage\<close> runs when
  the promise has settled.
\<close>

definition onSelect_doctor :: "(request \<Rightarrow> post_outcome) \<Rightarrow> obj \<Rightarrow> client \<Rightarrow> client" where
  "onSelect_doctor net d st =
     (case send_begin (property d ''name'') st of
        None \<Rightarrow> st\<lparr>doctors := []\<rparr>
      | Some (t, st1) \<Rightarrow> send_finish (mutationFn net (session st) t) (st1\<lparr>doctors := []\<rparr>))"

definition ChatScreen_slots ::
  "(request \<Rightarrow> post_outcome) \<Rightarrow> client \<Rightarrow> (client \<Rightarrow> client) slot_button list option" where
  "ChatScreen_slots net st =
     (if length (slots st) > 0 then SlotSelector (slots st) (sendUserMessage net) else None)"

definition ChatScreen_doctors ::
  "(request \<Rightarrow> post_outcome) \<Rightarrow> client \<Rightarrow> (client \<Rightarrow> client) doctor_list option" where
  "ChatScreen_doctors net st =
     (if length (doctors st) > 0 then Some (DoctorList (doctors st) (onSelect_doctor net))
      else None)"

subsection \<open>The documented payload shapes\<close>

text \<open>
  Modelled from the spec: the fields of a slot in a \<open>slots\<close> response (section 6, and the
  README); the backend that builds the responses is missing.
\<close>

definition slot_payload_fields :: "string list" where
  "slot_payload_fields = [''start_time'', ''end_time'', ''doctor_id'', ''available'']"

text \<open>
  Modelled from the spec: the fields of a doctor in a \<open>doctors\<close> response (section 6, and
  the README); the backend that builds the responses is missing.
\<close>

definition doctor_payload_fields :: "string list" where
  "doctor_payload_fields = [''doctor_id'', ''name'', ''specialization'', ''rating'']"

section \<open>The booking ledger and the booking transaction\<close>

text \<open>
  The backend (\<open>backend/tools/booking_tool.py\<close>, \<open>backend/tools/availability_tool.py\<close>,
  \<open>backend/data\<close>) is not among the source files. Its data and operations are modelled
  from sections 3, 4 and 5 of the specification. A date is a day number and a time of
  day is a number of minutes since midnight.
\<close>

text \<open>Modelled from the spec: the status of a Booking (section 3); the backend is missing.\<close>

datatype status = confirmed | cancelled

text \<open>Modelled from the spec: the Booking entity (section 3); the backend is missing.\<close>

record booking =
  booking_id :: string
  confirmation_code :: string
  doctor_id :: nat
  date :: nat
  start_time :: nat
  end_time :: nat
  appointment_type :: string
  patient_name :: string
  patient_phone :: string
  patient_email :: string
  reason :: string
  status :: status

text \<open>Modelled from the spec: the Doctor entity (section 3); the backend is missing.\<close>

record doctor =
  doc_id :: nat
  doc_name :: string
  specialization :: string
  rating :: rat
  working_days :: "nat set"
  working_hours :: "nat \<times> nat"
  slot_duration_minutes :: nat

text \<open>Modelled from the spec: the Slot entity (section 3); the backend is missing.\<close>

record slot =
  slot_start :: nat
  slot_end :: nat
  slot_doctor :: nat
  available :: bool

text \<open>Modelled from the spec: the error taxonomy (section 7); the backend is missing.\<close>

datatype booking_error =
  UnparseableDate | NotFound | ClosedOnDate | Conflict | SlotNoLongerAvailable |
  AlreadyCancelled | ValidationFailed | CodesExhausted

text \<open>Modelled from the spec: the Booking Ledger (section 4.3), in the order of insertion.\<close>

type_synonym ledger = "booking list"

text \<open>
  Modelled from the spec: the triple \<open>(doctor_id, date, start_time)\<close> of the
  no-double-booking invariant (section 3); the backend is missing.
\<close>

definition slot_key :: "booking \<Rightarrow> nat \<times> nat \<times> nat" where
  "slot_key b = (doctor_id b, date b, start_time b)"

text \<open>
  Modelled from the spec: the Ledger's \<open>insert\<close> (section 4.3), which fails with
  \<open>Conflict\<close> if another confirmed booking occupies the same triple; the backend is missing.
\<close>

definition ledger_insert :: "booking \<Rightarrow> ledger \<Rightarrow> booking_error + ledger" where
  "ledger_insert b L =
     (if \<exists>b' \<in> set L. status b' = confirmed \<and> slot_key b' = slot_key b
      then Inl Conflict else Inr (L @ [b]))"

text \<open>
  Modelled from the spec: the Ledger's \<open>find_confirmed\<close> (section 4.3), the occupied
  start times of a doctor on a date; the backend is missing.
\<close>

definition find_confirmed :: "ledger \<Rightarrow> nat \<Rightarrow> nat \<Rightarrow> nat set" where
  "find_confirmed L did dt =
     set (map start_time
            (filter (\<lambda>b. status b = confirmed \<and> doctor_id b = did \<and> date b = dt) L))"

text \<open>
  Modelled from the spec: the Ledger's \<open>find_by_code_or_id\<close> (section 4.3); the backend is
  missing.
\<close>

definition find_by_code_or_id :: "ledger \<Rightarrow> string \<Rightarrow> booking_error + booking" where
  "find_by_code_or_id L token =
     (case find (\<lambda>b. booking_id b = token \<or> confirmation_code b = token) L of
        None \<Rightarrow> Inl NotFound
      | Some b \<Rightarrow> Inr b)"

text \<open>
  Modelled from the spec: the Ledger's \<open>cancel\<close> (section 4.3), which fails with
  \<open>AlreadyCancelled\<close> if the status is already cancelled; the backend is missing.
\<close>

definition ledger_cancel :: "string \<Rightarrow> ledger \<Rightarrow> booking_error + ledger" where
  "ledger_cancel bid L =
     (case find (\<lambda>b. booking_id b = bid) L of
        None \<Rightarrow> Inl NotFound
      | Some b \<Rightarrow>
          if status b = cancelled then Inl AlreadyCancelled
          else Inr (map (\<lambda>b'. if booking_id b' = bid then b'\<lparr>status := cancelled\<rparr> else b') L))"

text \<open>Modelled from the spec: \<open>weekday_of\<close> (section 4.1); the backend is missing.\<close>

definition weekday_of :: "nat \<Rightarrow> nat" where
  "weekday_of dt = dt mod 7"

text \<open>
  Modelled from the spec: \<open>enumerate_slots\<close> (section 4.1), the finite, contiguous
  sequence of intervals of a fixed length within a window; the backend is missing.
\<close>

function enumerate_slots :: "nat \<Rightarrow> nat \<Rightarrow> nat \<Rightarrow> (nat \<times> nat) list" where
  "enumerate_slots s e d =
     (if d = 0 \<or> e < s + d then [] else (s, s + d) # enumerate_slots (s + d) e d)"
  by pat_completeness auto
termination
  by (relation "measure (\<lambda>(s, e, d). e - s)") auto

text \<open>Modelled from the spec: the Doctor Directory's \<open>get\<close> (section 4.2); the backend is missing.\<close>

definition get_doctor :: "doctor list \<Rightarrow> nat \<Rightarrow> booking_error + doctor" where
  "get_doctor directory did =
     (case find (\<lambda>D. doc_id D = did) directory of None \<Rightarrow> Inl NotFound | Some D \<Rightarrow> Inr D)"

text \<open>Modelled from the spec: the clock, today's date and the time of day (section 4.4).\<close>

record clock =
  today :: nat
  now :: nat

text \<open>
  Modelled from the spec: the Availability Engine's \<open>compute_slots\<close>, steps (1) to (6) of
  section 4.4; a closed day gives the empty sequence; the backend is missing.
\<close>

definition compute_slots ::
  "doctor list \<Rightarrow> clock \<Rightarrow> ledger \<Rightarrow> nat \<Rightarrow> nat \<Rightarrow> string \<Rightarrow> booking_error + slot list" where
  "compute_slots directory clk L did dt ty =
     (case get_doctor directory did of
        Inl e \<Rightarrow> Inl e
      | Inr D \<Rightarrow>
          if weekday_of dt \<notin> working_days D then Inr []
          else
            (let intervals = enumerate_slots (fst (working_hours D)) (snd (working_hours D))
                               (slot_duration_minutes D);
                 occupied = find_confirmed L did dt;
                 marked = map (\<lambda>(s, e). \<lparr>slot_start = s, slot_end = e, slot_doctor = did,
                                          available = (s \<notin> occupied)\<rparr>) intervals
             in Inr (filter (\<lambda>sl. \<not> (dt = today clk \<and> slot_start sl < now clk)) marked)))"

text \<open>
  Modelled from the spec: the arguments of \<open>book\<close> (section 4.6), with the identifier and
  the candidate confirmation codes that the generators produce; the backend is missing.
\<close>

record book_request =
  req_doctor_id :: nat
  req_date :: nat
  req_start_time :: nat
  req_appointment_type :: string
  req_patient_name :: string
  req_patient_phone :: string
  req_patient_email :: string
  req_reason :: string
  new_booking_id :: string
  candidate_codes :: "string list"

text \<open>
  Modelled from the spec: the Transaction's \<open>book\<close> (section 4.6): it revalidates the
  availability, takes the first candidate code that the Ledger does not hold, and
  inserts; the backend is missing.
\<close>

definition book ::
  "doctor list \<Rightarrow> clock \<Rightarrow> ledger \<Rightarrow> book_request \<Rightarrow> booking_error + booking \<times> ledger" where
  "book directory clk L r =
     (case compute_slots directory clk L (req_doctor_id r) (req_date r)
             (req_appointment_type r) of
        Inl e \<Rightarrow> Inl e
      | Inr ss \<Rightarrow>
          (case find (\<lambda>sl. slot_start sl = req_start_time r \<and> available sl) ss of
             None \<Rightarrow> Inl SlotNoLongerAvailable
           | Some sl \<Rightarrow>
               (case find (\<lambda>c. c \<notin> set (map confirmation_code L)) (candidate_codes r) of
                  None \<Rightarrow> Inl CodesExhausted
                | Some code \<Rightarrow>
                    (let b = \<lparr>booking_id = new_booking_id r, confirmation_code = code,
                              doctor_id = req_doctor_id r, date = req_date r,
                              start_time = req_start_time r, end_time = slot_end sl,
                              appointment_type = req_appointment_type r,
                              patient_name = req_patient_name r,
                              patient_phone = req_patient_phone r,
                              patient_email = req_patient_email r,
                              reason = req_reason r, status = confirmed\<rparr>
                     in case ledger_insert b L of
                          Inl e \<Rightarrow> Inl e
                        | Inr L' \<Rightarrow> Inr (b, L')))))"

text \<open>
  Modelled from the spec: the Transaction's \<open>cancel\<close> (section 4.6), by identifier or
  confirmation code; the backend is missing.
\<close>

definition cancel :: "ledger \<Rightarrow> string \<Rightarrow> booking_error + booking \<times> ledger" where
  "cancel L token =
     (case find_by_code_or_id L token of
        Inl e \<Rightarrow> Inl e
      | Inr b \<Rightarrow>
          if status b \<noteq> confirmed then Inl AlreadyCancelled
          else (case ledger_cancel (booking_id b) L of
                  Inl e \<Rightarrow> Inl e
                | Inr L' \<Rightarrow> Inr (b\<lparr>status := cancelled\<rparr>, L')))"

text \<open>
  Modelled from the spec: the serialisation boundary of section 5. The mutations of the
  Ledger exclude each other, and \<open>book\<close> revalidates inside the boundary, so concurrent
  attempts take effect one after the other in some order; an attempt that fails leaves
  the Ledger as it was. Each attempt runs at its own time.
\<close>

datatype attempt = Book clock book_request | Cancel string

text \<open>
  Modelled from the spec: one attempt taking effect on the Ledger (sections 4.6 and 5); an
  attempt that fails leaves the Ledger as it was.
\<close>

definition attempt_step :: "doctor list \<Rightarrow> ledger \<Rightarrow> attempt \<Rightarrow> ledger" where
  "attempt_step directory L a =
     (case a of
        Book clk r \<Rightarrow> (case book directory clk L r of Inl e \<Rightarrow> L | Inr (b, L') \<Rightarrow> L')
      | Cancel token \<Rightarrow> (case cancel L token of Inl e \<Rightarrow> L | Inr (b, L') \<Rightarrow> L'))"

text \<open>
  Modelled from the spec: a sequence of attempts in the order in which they pass the
  serialisation boundary (section 5).
\<close>

definition run_attempts :: "doctor list \<Rightarrow> ledger \<Rightarrow> attempt list \<Rightarrow> ledger" where
  "run_attempts directory L as = foldl (attempt_step directory) L as"

text \<open>
  Modelled from the spec: the no-double-booking invariant (sections 3 and 8): no two
  distinct confirmed Bookings of the Ledger share \<open>(doctor_id, date, start_time)\<close>.
\<close>

definition no_double_booking :: "ledger \<Rightarrow> bool" where
  "no_double_booking L \<longleftrightarrow>
     (\<forall>i < length L. \<forall>j < length L.
        i \<noteq> j \<and> status (L ! i) = confirmed \<and> status (L ! j) = confirmed
          \<longrightarrow> slot_key (L ! i) \<noteq> slot_key (L ! j))"

section \<open>Example data\<close>

text \<open>The JSON text of a slot list of one slot.\<close>

definition stored_slots :: jsstring where
  \<open>stored_slots =
     js ''[{"start_time":"09:00","end_time":"09:30","doctor_id":1,"available":true}]''\<close>

definition example_client :: client where
  "example_client =
     \<lparr>session = js ''6f1c2c1e-0b7a-4c57-9d55-2f1f0c7b9a10'',
      messages = [agent_msg greeting],
      slots = [[(''start_time'', Str (js ''09:00'')), (''end_time'', Str (js ''09:30'')),
                (''doctor_id'', Num 1), (''available'', Bool True)]],
      bookingDetails = None, loading = False, initialized = True, doctors = [],
      localStorage = [''session_id'' \<mapsto> js ''6f1c2c1e-0b7a-4c57-9d55-2f1f0c7b9a10'',
                      ''chat_slots'' \<mapsto> stored_slots],
      posted = []\<rparr>"

definition example_slot :: obj where
  "example_slot =
     [(''start_time'', Str (js ''09:30'')), (''end_time'', Str (js ''10:00'')),
      (''doctor_id'', Num 1), (''available'', Bool True)]"

definition example_doctor :: obj where
  "example_doctor =
     [(''doctor_id'', Num 1), (''name'', Str (js ''Dr. Ashik Arya'')),
      (''specialization'', Str (js ''General Physician'')), (''rating'', Num (47 / 10))]"

definition named_slot :: obj where
  "named_slot = example_slot @ [(''doctor_name'', Str (js ''Dr. Ashik Arya''))]"

definition pictured_doctor :: obj where
  "pictured_doctor = example_doctor @ [(''image'', Str (js ''/doctors/1.png''))]"

definition short_slot :: obj where
  "short_slot = [(''start_time'', Str (js ''09:30''))]"

definition short_doctor :: obj where
  "short_doctor =
     [(''name'', Str (js ''Dr. Ashik Arya'')),
      (''specialization'', Str (js ''General Physician'')), (''rating'', Num (47 / 10))]"

definition example_client_doctors :: client where
  "example_client_doctors = example_client\<lparr>doctors := [example_doctor]\<rparr>"

text \<open>The JSON text of a transcript of one user message.\<close>

definition stored_transcript :: jsstring where
  \<open>stored_transcript = js ''[{"sender":"user","text":"hi"}]''\<close>

text \<open>A parser that knows the empty array, the empty object and that transcript.\<close>

definition example_parse :: json_parse where
  "example_parse =
     \<lparr>parse_messages =
        (\<lambda>s. if s = js ''[]'' then Some []
             else if s = stored_transcript then Some [user_msg (js ''hi'')]
             else None),
      parse_slots = (\<lambda>s. if s = js ''[]'' then Some [] else None),
      parse_booking = (\<lambda>s. if s = js ''{}'' then Some [] else None)\<rparr>"

definition example_storage :: "string \<rightharpoonup> jsstring" where
  "example_storage =
     [''session_id'' \<mapsto> js ''6f1c2c1e-0b7a-4c57-9d55-2f1f0c7b9a10'',
      ''chat_messages'' \<mapsto> stored_transcript,
      ''chat_slots'' \<mapsto> js ''[]'']"

text \<open>A server whose every post is rejected.\<close>

definition rejecting_net :: "request \<Rightarrow> post_outcome" where
  "rejecting_net r = Rejects"

definition reply_response :: chat_response where
  "reply_response =
     \<lparr>action = js ''reply'', message = js ''What type of appointment do you need?'',
      res_slots = [], details = [], res_doctors = []\<rparr>"

definition slots_response :: chat_response where
  "slots_response =
     \<lparr>action = js ''slots'', message = js ''Here are the available slots.'',
      res_slots = [example_slot], details = [], res_doctors = []\<rparr>"

definition cancelled_response :: chat_response where
  "cancelled_response =
     \<lparr>action = js ''cancelled'', message = js ''Appointment cancelled successfully.'',
      res_slots = [], details = [], res_doctors = []\<rparr>"

text \<open>
  The scenario of section 8: a doctor who works Monday to Friday from 09:00 to 12:00 in
  slots of 30 minutes, and two requests for the slot at 10:30 of the same Monday.
\<close>

definition example_directory :: "doctor list" where
  "example_directory =
     [\<lparr>doc_id = 1, doc_name = ''Dr. Ashik Arya'', specialization = ''General Physician'',
       rating = 47 / 10, working_days = {0, 1, 2, 3, 4}, working_hours = (540, 720),
       slot_duration_minutes = 30\<rparr>]"

definition example_clock :: clock where
  "example_clock = \<lparr>today = 5, now = 600\<rparr>"

definition example_request :: book_request where
  "example_request =
     \<lparr>req_doctor_id = 1, req_date = 7, req_start_time = 630,
      req_appointment_type = ''consultation'', req_patient_name = ''Bipin'',
      req_patient_phone = ''9876543210'', req_patient_email = ''example@gmail.com'',
      req_reason = ''fever'', new_booking_id = ''APPT-173248281'',
      candidate_codes = [''CDF321'']\<rparr>"

definition rival_request :: book_request where
  "rival_request =
     example_request\<lparr>req_patient_name := ''Asha'', new_booking_id := ''APPT-173248282'',
                     candidate_codes := [''CDF321'', ''QRS778'']\<rparr>"

definition example_booking :: booking where
  "example_booking =
     \<lparr>booking_id = ''APPT-173248281'', confirmation_code = ''CDF321'', doctor_id = 1,
      date = 7, start_time = 630, end_time = 660, appointment_type = ''consultation'',
      patient_name = ''Bipin'', patient_phone = ''9876543210'',
      patient_email = ''example@gmail.com'', reason = ''fever'', status = confirmed\<rparr>"

definition rival_booking :: booking where
  "rival_booking =
     example_booking\<lparr>booking_id := ''APPT-173248282'', confirmation_code := ''QRS778'',
                     patient_name := ''Asha''\<rparr>"

section \<open>Properties of the chat client\<close>

subsection \<open>Auxiliary facts\<close>

lemma trim_empty_iff: "trim t = [] \<longleftrightarrow> (\<forall>c \<in> set t. is_white_space c)"
proof
  assume "trim t = []"
  then have "\<forall>c \<in> set (dropWhile is_white_space t). is_white_space c"
    by (simp add: trim_def)
  then have "dropWhile is_white_space t = []"
    by (cases "dropWhile is_white_space t") (auto simp: dropWhile_eq_Cons_conv)
  then show "\<forall>c \<in> set t. is_white_space c"
    by simp
next
  assume "\<forall>c \<in> set t. is_white_space c"
  then have d: "dropWhile is_white_space t = []"
    by simp
  show "trim t = []"
    unfolding trim_def d by simp
qed

lemma send_begin_blank: "\<forall>c \<in> set t. is_white_space c \<Longrightarrow> send_begin (Str t) st = None"
  by (simp add: send_begin_def trim_empty_iff)

lemma js_literals_distinct:
  "js ''reply'' \<noteq> js ''slots''" "js ''reply'' \<noteq> js ''booking_confirmed''"
  "js ''reply'' \<noteq> js ''doctors''" "js ''slots'' \<noteq> js ''booking_confirmed''"
  "js ''slots'' \<noteq> js ''doctors''" "js ''booking_confirmed'' \<noteq> js ''doctors''"
  "js ''cancelled'' \<noteq> js ''reply''" "js ''cancelled'' \<noteq> js ''slots''"
  "js ''cancelled'' \<noteq> js ''booking_confirmed''" "js ''cancelled'' \<noteq> js ''doctors''"
  by (simp_all add: js_def)

lemma messages_dispatch:
  "messages (dispatch res st) =
     (if action res \<in> handled_actions then messages st @ [agent_msg (message res)]
      else messages st)"
  using js_literals_distinct
  by (auto simp: dispatch_def handled_actions_def Let_def)

lemma dispatch_unhandled: "action res \<notin> handled_actions \<Longrightarrow> dispatch res st = st"
  by (simp add: dispatch_def handled_actions_def Let_def)

lemma slots_dispatch:
  "slots (dispatch res st) = (if action res = js ''slots'' then res_slots res else slots st)"
  using js_literals_distinct
  by (auto simp: dispatch_def Let_def)

subsection \<open>The dispatch on the action\<close>

text \<open>
  C1, as the code has it. The dispatch tests for four actions: \<open>reply\<close>, \<open>slots\<close>,
  \<open>booking_confirmed\<close> and \<open>doctors\<close>. For a response with one of these it appends the
  message of the response to the transcript as exactly one agent message. For every other
  action it leaves the whole state as it is; \<open>cancelled\<close>, the fifth action of the
  response contract, is among them.
\<close>

theorem dispatch_handled_actions:
  "(action res \<in> handled_actions \<longrightarrow>
      messages (dispatch res st) = messages st @ [agent_msg (message res)]) \<and>
   (action res \<notin> handled_actions \<longrightarrow> dispatch res st = st) \<and>
   handled_actions = response_actions - {js ''cancelled''}"
proof -
  have "handled_actions = response_actions - {js ''cancelled''}"
    using js_literals_distinct
    by (auto simp: handled_actions_def response_actions_def)
  then show ?thesis
    by (simp add: messages_dispatch dispatch_unhandled)
qed

theorem dispatch_handled_actions_witness:
  "action reply_response \<in> handled_actions \<and>
   messages (dispatch reply_response example_client) =
     messages example_client @ [agent_msg (js ''What type of appointment do you need?'')] \<and>
   action cancelled_response \<notin> handled_actions \<and>
   dispatch cancelled_response example_client = example_client"
proof -
  have a: "action reply_response \<in> handled_actions"
    by (simp add: reply_response_def handled_actions_def)
  have b: "action cancelled_response \<notin> handled_actions"
    using js_literals_distinct by (simp add: cancelled_response_def handled_actions_def)
  have m: "message reply_response = js ''What type of appointment do you need?''"
    by (simp add: reply_response_def)
  show ?thesis
    using a b m dispatch_handled_actions [of reply_response example_client]
      dispatch_handled_actions [of cancelled_response example_client]
    by simp
qed

text \<open>
  C1 as it is stated fails at the action \<open>cancelled\<close>: it lies in the fixed set, and the
  dispatch appends no agent message for it.
\<close>

theorem dispatch_cancelled_counterexample:
  "action cancelled_response \<in> response_actions \<and>
   messages (dispatch cancelled_response example_client) \<noteq>
     messages example_client @ [agent_msg (message cancelled_response)]"
  using js_literals_distinct
  by (simp add: cancelled_response_def response_actions_def dispatch_def Let_def)

subsection \<open>Blank input\<close>

text \<open>
  C8. For a text that is empty or consists of white space only, \<open>sendUserMessage\<close> returns
  the state as it was: no message is appended, no request is posted, and the slots, the
  doctors and the booking details stay. \<open>send\<close> of the input box does not call \<open>onSend\<close>
  and leaves the text in the box.
\<close>

theorem blank_send_is_noop:
  assumes "\<forall>c \<in> set t. is_white_space c"
  shows "sendUserMessage net (Str t) st = st \<and> send (sendUserMessage net) t st = (t, st)"
  using assms by (simp add: sendUserMessage_def send_def send_begin_blank trim_empty_iff)

theorem blank_send_is_noop_witness:
  "list_all is_white_space [0x20, 0x09, 0x0A, 0x3000] \<and>
   sendUserMessage (\<lambda>r. Rejects) (Str [0x20, 0x09, 0x0A, 0x3000]) example_client
     = example_client \<and>
   send (sendUserMessage (\<lambda>r. Rejects)) [0x20, 0x09, 0x0A, 0x3000] example_client
     = ([0x20, 0x09, 0x0A, 0x3000], example_client)"
proof -
  have h: "\<forall>c \<in> set ([0x20, 0x09, 0x0A, 0x3000] :: jsstring). is_white_space c"
    by (simp add: is_white_space_def)
  show ?thesis
    using h blank_send_is_noop [OF h, of "\<lambda>r. Rejects" example_client]
    by (simp add: list_all_iff)
qed

subsection \<open>One turn\<close>

lemma send_begin_Str:
  "send_begin (Str t) st = (if trim t = [] then None else Some (t, before_await t st))"
  by (simp add: send_begin_def)

lemma before_await_fields:
  "messages (before_await t st) = messages st @ [user_msg t]"
  "slots (before_await t st) = []"
  "localStorage (before_await t st) = (localStorage st)(''chat_slots'' := None)"
  "posted (before_await t st) = posted st @ [post_request (session st) t]"
  "session (before_await t st) = session st"
  "doctors (before_await t st) = doctors st"
  "bookingDetails (before_await t st) = bookingDetails st"
  by (simp_all add: before_await_def)

lemma send_finish_error:
  "send_finish (Inl e) st
     = st\<lparr>messages := messages st @ [agent_msg apology], loading := False\<rparr>"
  "send_finish (Inr None) st
     = st\<lparr>messages := messages st @ [agent_msg apology], loading := False\<rparr>"
  by (simp_all add: send_finish_def try_block_def catch_block_def)

lemma send_finish_response:
  "send_finish (Inr (Some res)) st = (dispatch res st)\<lparr>loading := False\<rparr>"
  by (simp add: send_finish_def try_block_def)

lemma dispatch_keeps:
  "session (dispatch res st) = session st"
  "localStorage (dispatch res st) = localStorage st"
  "posted (dispatch res st) = posted st"
  by (simp_all add: dispatch_def Let_def)

lemma send_finish_keeps:
  "session (send_finish r st) = session st"
  "localStorage (send_finish r st) = localStorage st"
  "posted (send_finish r st) = posted st"
  by (simp_all add: send_finish_def try_block_def catch_block_def dispatch_keeps
      split: option.splits sum.splits)

lemma slots_send_finish:
  "slots (send_finish r st) =
     (case r of Inr (Some res) \<Rightarrow> if action res = js ''slots'' then res_slots res else slots st
      | _ \<Rightarrow> slots st)"
  by (simp add: send_finish_def try_block_def catch_block_def slots_dispatch
      split: sum.splits option.splits)

text \<open>
  C3. When the request of a turn is rejected, the transcript grows by the user message
  and exactly one agent message with the fixed apology. The session identifier of the
  component and the one in the storage stay as they were, and the request of the next
  turn carries the same session identifier.
\<close>

theorem rejected_turn_apologises:
  assumes "trim t \<noteq> []" and "net (post_request (session st) t) = Rejects"
  shows "messages (sendUserMessage net (Str t) st)
           = messages st @ [user_msg t] @ [agent_msg apology] \<and>
         session (sendUserMessage net (Str t) st) = session st \<and>
         localStorage (sendUserMessage net (Str t) st) ''session_id''
           = localStorage st ''session_id'' \<and>
         (\<forall>net' t'. trim t' \<noteq> [] \<longrightarrow>
            posted (sendUserMessage net' (Str t') (sendUserMessage net (Str t) st))
              = posted (sendUserMessage net (Str t) st) @ [post_request (session st) t'])"
proof -
  have m: "mutationFn net (session st) t = Inl RequestError"
    using assms(2) by (simp add: mutationFn_def)
  have s: "sendUserMessage net (Str t) st = send_finish (Inl RequestError) (before_await t st)"
    using assms(1) m by (simp add: sendUserMessage_def send_begin_Str)
  have p: "posted (sendUserMessage net' (Str t') st')
             = posted st' @ [post_request (session st') t']"
    if "trim t' \<noteq> []" for net' t' st'
    using that
    by (simp add: sendUserMessage_def send_begin_Str send_finish_keeps before_await_fields)
  show ?thesis
    using p by (simp add: s send_finish_error send_finish_keeps before_await_fields)
qed

theorem rejected_turn_apologises_witness:
  "trim (js ''I have a fever'') \<noteq> [] \<and>
   messages (sendUserMessage (\<lambda>r. Rejects) (Str (js ''I have a fever'')) example_client)
     = messages example_client @ [user_msg (js ''I have a fever'')]
         @ [agent_msg (js ''Sorry, something went wrong. Please try again.'')] \<and>
   session (sendUserMessage (\<lambda>r. Rejects) (Str (js ''I have a fever'')) example_client)
     = session example_client"
proof -
  have h: "trim (js ''I have a fever'') \<noteq> []"
    by (simp add: trim_def js_def is_white_space_def)
  show ?thesis
    using h rejected_turn_apologises [OF h, of "\<lambda>r. Rejects" example_client]
    by (simp add: apology_def)
qed

text \<open>
  C4. A turn with a text that is not blank posts exactly one request: to the chat
  endpoint, with a body of exactly the two fields \<open>message\<close> (the text) and \<open>session_id\<close>
  (the session identifier). When the post resolves, what the rest of \<open>sendUserMessage\<close>
  works on is the \<open>response\<close> field of the reply body, and the dispatch runs on it when it
  is defined.
\<close>

theorem turn_posts_one_request:
  assumes "trim t \<noteq> []"
  shows "posted (sendUserMessage net (Str t) st) = posted st @ [post_request (session st) t] \<and>
         url (post_request (session st) t) = js ''http://localhost:8000/api/chat'' \<and>
         body (post_request (session st) t)
           = [(''message'', Str t), (''session_id'', Str (session st))] \<and>
         (\<forall>res_data. net (post_request (session st) t) = Resolves res_data \<longrightarrow>
            sendUserMessage net (Str t) st
              = send_finish (Inr (response res_data)) (before_await t st)) \<and>
         (\<forall>res_data res.
            net (post_request (session st) t) = Resolves res_data \<and>
            response res_data = Some res \<longrightarrow>
            sendUserMessage net (Str t) st
              = (dispatch res (before_await t st))\<lparr>loading := False\<rparr>)"
  using assms
  by (auto simp: sendUserMessage_def send_begin_Str send_finish_keeps before_await_fields
      post_request_def mutationFn_def send_finish_response)

theorem turn_posts_one_request_witness:
  "trim (js ''tomorrow'') \<noteq> [] \<and>
   posted example_client = [] \<and>
   posted (sendUserMessage (\<lambda>r. Resolves \<lparr>response = Some reply_response\<rparr>)
             (Str (js ''tomorrow'')) example_client)
     = [\<lparr>url = js ''http://localhost:8000/api/chat'',
         body = [(''message'', Str (js ''tomorrow'')),
                 (''session_id'', Str (js ''6f1c2c1e-0b7a-4c57-9d55-2f1f0c7b9a10''))]\<rparr>] \<and>
   sendUserMessage (\<lambda>r. Resolves \<lparr>response = Some reply_response\<rparr>)
       (Str (js ''tomorrow'')) example_client
     = (dispatch reply_response (before_await (js ''tomorrow'') example_client))
         \<lparr>loading := False\<rparr>"
proof -
  have h: "trim (js ''tomorrow'') \<noteq> []"
    by (simp add: trim_def js_def is_white_space_def)
  have s: "session example_client = js ''6f1c2c1e-0b7a-4c57-9d55-2f1f0c7b9a10''"
    "posted example_client = []"
    by (simp_all add: example_client_def)
  note T = turn_posts_one_request
      [OF h, of "\<lambda>r. Resolves \<lparr>response = Some reply_response\<rparr>" example_client]
  have p: "posted (sendUserMessage (\<lambda>r. Resolves \<lparr>response = Some reply_response\<rparr>)
             (Str (js ''tomorrow'')) example_client)
     = [\<lparr>url = js ''http://localhost:8000/api/chat'',
         body = [(''message'', Str (js ''tomorrow'')),
                 (''session_id'', Str (js ''6f1c2c1e-0b7a-4c57-9d55-2f1f0c7b9a10''))]\<rparr>]"
    using T [THEN conjunct1] by (simp add: s post_request_def)
  have d: "sendUserMessage (\<lambda>r. Resolves \<lparr>response = Some reply_response\<rparr>)
       (Str (js ''tomorrow'')) example_client
     = (dispatch reply_response (before_await (js ''tomorrow'') example_client))
         \<lparr>loading := False\<rparr>"
    using T [THEN conjunct2, THEN conjunct2, THEN conjunct2, THEN conjunct2] by simp
  show ?thesis
    using h s(2) p d by blast
qed

subsection \<open>The slot list during a turn\<close>

lemma handle_event_simps:
  "handle_event st (Sent v) = (case send_begin v st of None \<Rightarrow> st | Some (t, st1) \<Rightarrow> st1)"
  "handle_event st (Settled r) = send_finish r st"
  by (simp_all add: handle_event_def)

lemma slots_handle_event:
  "slots (handle_event st ev) = slots st \<or> slots (handle_event st ev) = [] \<or>
   (\<exists>res. ev = Settled (Inr (Some res)) \<and> action res = js ''slots'' \<and>
          slots (handle_event st ev) = res_slots res)"
proof (cases ev)
  case (Sent v)
  then show ?thesis
    by (cases v) (simp_all add: handle_event_simps send_begin_def before_await_def)
next
  case (Settled r)
  then show ?thesis
    by (simp add: handle_event_simps slots_send_finish split: sum.splits option.splits)
qed

lemma slots_after_events:
  assumes "slots st = []" and "slots (foldl handle_event st evs) \<noteq> []"
  shows "\<exists>res. Settled (Inr (Some res)) \<in> set evs \<and> action res = js ''slots'' \<and>
           slots (foldl handle_event st evs) = res_slots res"
  using assms(2)
proof (induction evs rule: rev_induct)
  case Nil
  with assms(1) show ?case by simp
next
  case (snoc ev evs)
  define st' where "st' = foldl handle_event st evs"
  have f: "foldl handle_event st (evs @ [ev]) = handle_event st' ev"
    by (simp add: st'_def)
  from slots_handle_event [of st' ev] consider
    (same) "slots (handle_event st' ev) = slots st'" |
    (empty) "slots (handle_event st' ev) = []" |
    (fresh) res where "ev = Settled (Inr (Some res))" "action res = js ''slots''"
      "slots (handle_event st' ev) = res_slots res"
    by blast
  then show ?case
  proof cases
    case same
    with snoc.prems f have "slots st' \<noteq> []" by simp
    then obtain res where "Settled (Inr (Some res)) \<in> set evs" "action res = js ''slots''"
      "slots st' = res_slots res"
      using snoc.IH unfolding st'_def by blast
    with same f show ?thesis by auto
  next
    case empty
    with snoc.prems f show ?thesis by simp
  next
    case fresh
    with f show ?thesis by auto
  qed
qed

lemma persist_slots_after_send:
  "initialized st \<Longrightarrow>
   localStorage (persist_slots stringify (before_await t st)) ''chat_slots''
     = Some (stringify [])"
  by (simp add: persist_slots_def before_await_def)

text \<open>
  C9, as the code has it. On a send with a text that is not blank, at the \<open>await\<close> the
  slot list of the state is empty, the key \<open>chat_slots\<close> is removed from the storage and
  the chat screen renders no slot selector. When the promise settles, the slot list is the
  one of the response if its action is \<open>slots\<close>, and empty otherwise. Whatever sends and
  settlements follow the send, in any order, a slot list that is not empty afterwards is
  the one of a \<open>slots\<close> response that has settled after the send; it may be the response
  of an earlier turn that was still in flight.
\<close>

theorem send_clears_slots:
  assumes "trim t \<noteq> []"
  shows "send_begin (Str t) st = Some (t, before_await t st) \<and>
         slots (before_await t st) = [] \<and>
         localStorage (before_await t st) ''chat_slots'' = None \<and>
         ChatScreen_slots net (before_await t st) = None \<and>
         slots (sendUserMessage net (Str t) st) =
           (case mutationFn net (session st) t of
              Inr (Some res) \<Rightarrow> if action res = js ''slots'' then res_slots res else []
            | _ \<Rightarrow> []) \<and>
         (\<forall>evs. slots (foldl handle_event (before_await t st) evs) \<noteq> [] \<longrightarrow>
            (\<exists>res. Settled (Inr (Some res)) \<in> set evs \<and> action res = js ''slots'' \<and>
                   slots (foldl handle_event (before_await t st) evs) = res_slots res))"
proof -
  have e: "slots (before_await t st) = []"
    by (simp add: before_await_fields)
  have s: "sendUserMessage net (Str t) st
             = send_finish (mutationFn net (session st) t) (before_await t st)"
    using assms by (simp add: sendUserMessage_def send_begin_Str)
  have "slots (sendUserMessage net (Str t) st) =
           (case mutationFn net (session st) t of
              Inr (Some res) \<Rightarrow> if action res = js ''slots'' then res_slots res else []
            | _ \<Rightarrow> [])"
    unfolding s by (simp add: slots_send_finish e split: sum.splits option.splits)
  moreover have "ChatScreen_slots net (before_await t st) = None"
    by (simp add: ChatScreen_slots_def e)
  ultimately show ?thesis
    using assms slots_after_events [OF e]
    by (simp add: send_begin_Str before_await_fields)
qed

theorem send_clears_slots_witness:
  "trim (js ''tomorrow'') \<noteq> [] \<and>
   slots example_client \<noteq> [] \<and>
   localStorage example_client ''chat_slots'' \<noteq> None \<and>
   slots (before_await (js ''tomorrow'') example_client) = [] \<and>
   localStorage (before_await (js ''tomorrow'') example_client) ''chat_slots'' = None \<and>
   slots (sendUserMessage (\<lambda>r. Resolves \<lparr>response = Some slots_response\<rparr>)
            (Str (js ''tomorrow'')) example_client) = [example_slot] \<and>
   slots (sendUserMessage (\<lambda>r. Resolves \<lparr>response = Some reply_response\<rparr>)
            (Str (js ''tomorrow'')) example_client) = []"
proof -
  have h: "trim (js ''tomorrow'') \<noteq> []"
    by (simp add: trim_def js_def is_white_space_def)
  have a: "action slots_response = js ''slots''" "res_slots slots_response = [example_slot]"
    by (simp_all add: slots_response_def)
  have b: "action reply_response \<noteq> js ''slots''"
    using js_literals_distinct by (simp add: reply_response_def)
  show ?thesis
    using h a b
      send_clears_slots
        [OF h, of example_client "\<lambda>r. Resolves \<lparr>response = Some slots_response\<rparr>"]
      send_clears_slots
        [OF h, of example_client "\<lambda>r. Resolves \<lparr>response = Some reply_response\<rparr>"]
    by (simp add: mutationFn_def example_client_def)
qed

text \<open>
  C9 as it is stated fails when turns overlap: a first turn is sent, a second turn is sent
  while the first is in flight, and the \<open>slots\<close> response of the first settles. Two
  requests are posted and one has settled, so the second turn is in flight, and the slot
  list of the first turn is in the state and rendered.
\<close>

theorem overlapping_turn_shows_slots_counterexample:
  "posted (foldl handle_event example_client
             [Sent (Str (js ''tomorrow'')), Sent (Str (js ''morning'')),
              Settled (Inr (Some slots_response))])
     = [post_request (session example_client) (js ''tomorrow''),
        post_request (session example_client) (js ''morning'')] \<and>
   slots (foldl handle_event example_client
            [Sent (Str (js ''tomorrow'')), Sent (Str (js ''morning'')),
             Settled (Inr (Some slots_response))])
     = [example_slot] \<and>
   ChatScreen_slots rejecting_net
       (foldl handle_event example_client
          [Sent (Str (js ''tomorrow'')), Sent (Str (js ''morning'')),
           Settled (Inr (Some slots_response))])
     \<noteq> None"
proof -
  have t: "trim (js ''tomorrow'') \<noteq> []" "trim (js ''morning'') \<noteq> []"
    by (simp_all add: trim_def js_def is_white_space_def)
  let ?st2 = "before_await (js ''morning'') (before_await (js ''tomorrow'') example_client)"
  have f: "foldl handle_event example_client
             [Sent (Str (js ''tomorrow'')), Sent (Str (js ''morning'')),
              Settled (Inr (Some slots_response))]
           = send_finish (Inr (Some slots_response)) ?st2"
    using t by (simp add: handle_event_simps send_begin_Str)
  have p: "posted (send_finish (Inr (Some slots_response)) ?st2)
     = [post_request (session example_client) (js ''tomorrow''),
        post_request (session example_client) (js ''morning'')]"
    by (simp add: send_finish_keeps before_await_fields) (simp add: example_client_def)
  have s: "slots (send_finish (Inr (Some slots_response)) ?st2) = [example_slot]"
    by (simp add: slots_send_finish slots_response_def)
  have c: "ChatScreen_slots rejecting_net (send_finish (Inr (Some slots_response)) ?st2) \<noteq> None"
    by (simp add: ChatScreen_slots_def SlotSelector_def s)
  show ?thesis
    unfolding f using p s c by blast
qed

subsection \<open>Selecting a doctor or a slot\<close>

lemma before_await_doctors:
  "before_await t (st\<lparr>doctors := ds\<rparr>) = (before_await t st)\<lparr>doctors := ds\<rparr>"
  by (simp add: before_await_def)

lemma onSelect_doctor_name:
  assumes "property d ''name'' = Str n" and "trim n \<noteq> []"
  shows "onSelect_doctor net d st = sendUserMessage net (Str n) (st\<lparr>doctors := []\<rparr>)"
    and "onSelect_doctor net d st
           = send_finish (mutationFn net (session st) n) ((before_await n st)\<lparr>doctors := []\<rparr>)"
  using assms
  by (simp_all add: onSelect_doctor_def sendUserMessage_def send_begin_Str before_await_doctors)

lemma posted_sendUserMessage:
  "trim t \<noteq> [] \<Longrightarrow>
   posted (sendUserMessage net (Str t) st) = posted st @ [post_request (session st) t]"
  by (simp add: sendUserMessage_def send_begin_Str send_finish_keeps before_await_fields)

text \<open>
  C10. A click on the card of a doctor whose \<open>name\<close> is a text that is not blank does
  what sending that name as a message does in the state with the doctor list emptied: it
  posts one request whose message is the name, and at the \<open>await\<close> the doctor list is
  empty and no longer rendered. A click on the button of a slot whose \<open>start_time\<close> is a
  text that is not blank is \<open>sendUserMessage\<close> on that text, and posts one request whose
  message is the start time.
\<close>

theorem selection_is_sent_as_text:
  "(i < length (doctors st) \<and> property (doctors st ! i) ''name'' = Str n \<and> trim n \<noteq> [] \<longrightarrow>
      (\<exists>cards. ChatScreen_doctors net st = Some (Cards cards) \<and>
         card_click (snd (cards ! i)) st = sendUserMessage net (Str n) (st\<lparr>doctors := []\<rparr>) \<and>
         card_click (snd (cards ! i)) st
           = send_finish (mutationFn net (session st) n)
               ((before_await n st)\<lparr>doctors := []\<rparr>) \<and>
         ChatScreen_doctors net ((before_await n st)\<lparr>doctors := []\<rparr>) = None \<and>
         posted (card_click (snd (cards ! i)) st)
           = posted st @ [post_request (session st) n])) \<and>
   (j < length (slots st) \<and> property (slots st ! j) ''start_time'' = Str s \<and> trim s \<noteq> [] \<longrightarrow>
      (\<exists>buttons. ChatScreen_slots net st = Some buttons \<and>
         slot_click (buttons ! j) st = sendUserMessage net (Str s) st \<and>
         posted (slot_click (buttons ! j) st) = posted st @ [post_request (session st) s]))"
proof (intro conjI impI)
  assume a: "i < length (doctors st) \<and> property (doctors st ! i) ''name'' = Str n \<and> trim n \<noteq> []"
  let ?cards = "map (\<lambda>doc. (property doc ''id'', DoctorCard doc (onSelect_doctor net))) (doctors st)"
  from a have ne: "doctors st \<noteq> []" by auto
  then have c: "ChatScreen_doctors net st = Some (Cards ?cards)"
    by (simp add: ChatScreen_doctors_def DoctorList_def)
  have k: "card_click (snd (?cards ! i)) = onSelect_doctor net (doctors st ! i)"
    using a by (simp add: DoctorCard_def)
  have p: "posted (sendUserMessage net (Str n) (st\<lparr>doctors := []\<rparr>))
             = posted st @ [post_request (session st) n]"
    using a posted_sendUserMessage [of n net "st\<lparr>doctors := []\<rparr>"] by simp
  have n: "ChatScreen_doctors net ((before_await n st)\<lparr>doctors := []\<rparr>) = None"
    by (simp add: ChatScreen_doctors_def)
  show "\<exists>cards. ChatScreen_doctors net st = Some (Cards cards) \<and>
         card_click (snd (cards ! i)) st = sendUserMessage net (Str n) (st\<lparr>doctors := []\<rparr>) \<and>
         card_click (snd (cards ! i)) st
           = send_finish (mutationFn net (session st) n)
               ((before_await n st)\<lparr>doctors := []\<rparr>) \<and>
         ChatScreen_doctors net ((before_await n st)\<lparr>doctors := []\<rparr>) = None \<and>
         posted (card_click (snd (cards ! i)) st)
           = posted st @ [post_request (session st) n]"
    using a c k p n onSelect_doctor_name [of "doctors st ! i" n net st]
    by (intro exI [of _ ?cards]) (simp only: simp_thms)
next
  assume a: "j < length (slots st) \<and> property (slots st ! j) ''start_time'' = Str s \<and> trim s \<noteq> []"
  let ?buttons = "map (\<lambda>slot. \<lparr>slot_click = sendUserMessage net (property slot ''start_time''),
                               slot_label = property slot ''start_time'',
                               slot_sublabel = property slot ''doctor_name''\<rparr>) (slots st)"
  from a have ne: "slots st \<noteq> []" by auto
  then have c: "ChatScreen_slots net st = Some ?buttons"
    by (simp add: ChatScreen_slots_def SlotSelector_def)
  have k: "slot_click (?buttons ! j) = sendUserMessage net (Str s)"
    using a by simp
  show "\<exists>buttons. ChatScreen_slots net st = Some buttons \<and>
         slot_click (buttons ! j) st = sendUserMessage net (Str s) st \<and>
         posted (slot_click (buttons ! j) st) = posted st @ [post_request (session st) s]"
    using a c k posted_sendUserMessage [of s net st]
    by (intro exI [of _ ?buttons]) (simp only: simp_thms)
qed

theorem selection_is_sent_as_text_witness:
  "0 < length (doctors example_client_doctors) \<and>
   property (doctors example_client_doctors ! 0) ''name'' = Str (js ''Dr. Ashik Arya'') \<and>
   trim (js ''Dr. Ashik Arya'') \<noteq> [] \<and>
   (\<exists>cards. ChatScreen_doctors (\<lambda>r. Rejects) example_client_doctors = Some (Cards cards) \<and>
      posted (card_click (snd (cards ! 0)) example_client_doctors)
        = [post_request (session example_client_doctors) (js ''Dr. Ashik Arya'')]) \<and>
   0 < length (slots example_client_doctors) \<and>
   property (slots example_client_doctors ! 0) ''start_time'' = Str (js ''09:00'') \<and>
   trim (js ''09:00'') \<noteq> [] \<and>
   (\<exists>buttons. ChatScreen_slots (\<lambda>r. Rejects) example_client_doctors = Some buttons \<and>
      posted (slot_click (buttons ! 0) example_client_doctors)
        = [post_request (session example_client_doctors) (js ''09:00'')])"
proof -
  have d: "0 < length (doctors example_client_doctors)"
    "property (doctors example_client_doctors ! 0) ''name'' = Str (js ''Dr. Ashik Arya'')"
    by (simp_all add: example_client_doctors_def example_doctor_def property_def)
  have s: "0 < length (slots example_client_doctors)"
    "property (slots example_client_doctors ! 0) ''start_time'' = Str (js ''09:00'')"
    by (simp_all add: example_client_doctors_def example_client_def property_def)
  have t: "trim (js ''Dr. Ashik Arya'') \<noteq> []" "trim (js ''09:00'') \<noteq> []"
    by (simp_all add: trim_def js_def is_white_space_def)
  have p: "posted example_client_doctors = []"
    by (simp add: example_client_doctors_def example_client_def)
  note T = selection_is_sent_as_text
    [of 0 example_client_doctors "js ''Dr. Ashik Arya''" "\<lambda>r. Rejects" 0 "js ''09:00''"]
  have 1: "\<exists>cards. ChatScreen_doctors (\<lambda>r. Rejects) example_client_doctors = Some (Cards cards) \<and>
      posted (card_click (snd (cards ! 0)) example_client_doctors)
        = [post_request (session example_client_doctors) (js ''Dr. Ashik Arya'')]"
    using T [THEN conjunct1] d t(1) p by auto
  have 2: "\<exists>buttons. ChatScreen_slots (\<lambda>r. Rejects) example_client_doctors = Some buttons \<and>
      posted (slot_click (buttons ! 0) example_client_doctors)
        = [post_request (session example_client_doctors) (js ''09:00'')]"
    using T [THEN conjunct2] s t(2) p by auto
  show ?thesis
    using d s t 1 2 by blast
qed

subsection \<open>Resetting the chat\<close>

lemma init_session_removed:
  "ls ''session_id'' = None \<Longrightarrow> init_session uuid ls = (uuid, ls(''session_id'' \<mapsto> uuid))"
  by (simp add: init_session_def)

lemma clearChat_eq:
  "clearChat uuid st =
     \<lparr>session = uuid, messages = [], slots = [], bookingDetails = None, loading = False,
      initialized = False, doctors = [],
      localStorage = (clearChat_storage (localStorage st))(''session_id'' \<mapsto> uuid),
      posted = []\<rparr>"
  by (simp add: clearChat_def page_load_def init_session_def clearChat_storage_def)

text \<open>
  C5, as the code has it. \<open>clearChat\<close> removes the four keys and reloads. The reloaded
  page takes the value that \<open>crypto.randomUUID()\<close> returns as its session, whatever that
  value is, and stores it under \<open>session_id\<close>; nothing compares it with the discarded
  identifier. The mount effect then shows the greeting alone, and the requests of the
  reloaded page carry the new identifier. A page load that finds an identifier in the
  storage takes it and leaves the storage as it is.
\<close>

theorem clearChat_takes_new_session:
  "session (clearChat uuid st) = uuid \<and>
   localStorage (clearChat uuid st) ''session_id'' = Some uuid \<and>
   localStorage (clearChat uuid st) ''chat_messages'' = None \<and>
   localStorage (clearChat uuid st) ''chat_slots'' = None \<and>
   localStorage (clearChat uuid st) ''chat_booking'' = None \<and>
   restore J (clearChat uuid st)
     = Inr ((clearChat uuid st)\<lparr>messages := [agent_msg greeting], initialized := True\<rparr>) \<and>
   (\<forall>net t. trim t \<noteq> [] \<longrightarrow>
      posted (sendUserMessage net (Str t) (clearChat uuid st)) = [post_request uuid t]) \<and>
   (ls ''session_id'' = Some i \<and> i \<noteq> [] \<longrightarrow>
      session (page_load uuid ls) = i \<and> localStorage (page_load uuid ls) = ls)"
proof -
  have r: "restore J (clearChat uuid st)
     = Inr ((clearChat uuid st)\<lparr>messages := [agent_msg greeting], initialized := True\<rparr>)"
    by (simp add: clearChat_eq restore_def restore_messages_def restore_slots_def
        restore_booking_def clearChat_storage_def)
  have p: "\<forall>net t. trim t \<noteq> [] \<longrightarrow>
      posted (sendUserMessage net (Str t) (clearChat uuid st)) = [post_request uuid t]"
    by (simp add: posted_sendUserMessage) (simp add: clearChat_eq)
  have l: "ls ''session_id'' = Some i \<and> i \<noteq> [] \<longrightarrow>
      session (page_load uuid ls) = i \<and> localStorage (page_load uuid ls) = ls"
    by (simp add: page_load_def init_session_def)
  show ?thesis
    using r p l by (simp add: clearChat_eq clearChat_storage_def)
qed

theorem clearChat_takes_new_session_witness:
  "session (clearChat (js ''0b9d6a52-7c1e-4f0a-8a3e-5d2c9e4b1f77'') example_client)
     = js ''0b9d6a52-7c1e-4f0a-8a3e-5d2c9e4b1f77'' \<and>
   trim (js ''tomorrow'') \<noteq> [] \<and>
   posted (sendUserMessage rejecting_net (Str (js ''tomorrow''))
             (clearChat (js ''0b9d6a52-7c1e-4f0a-8a3e-5d2c9e4b1f77'') example_client))
     = [post_request (js ''0b9d6a52-7c1e-4f0a-8a3e-5d2c9e4b1f77'') (js ''tomorrow'')] \<and>
   localStorage example_client ''session_id'' = Some (session example_client) \<and>
   session example_client \<noteq> [] \<and>
   session (page_load (js ''0b9d6a52-7c1e-4f0a-8a3e-5d2c9e4b1f77'') (localStorage example_client))
     = session example_client \<and>
   localStorage (page_load (js ''0b9d6a52-7c1e-4f0a-8a3e-5d2c9e4b1f77'')
                   (localStorage example_client))
     = localStorage example_client"
proof -
  have h: "trim (js ''tomorrow'') \<noteq> []"
    by (simp add: trim_def js_def is_white_space_def)
  have k: "localStorage example_client ''session_id'' = Some (session example_client)"
    "session example_client \<noteq> []"
    by (simp_all add: example_client_def js_def)
  note T = clearChat_takes_new_session
    [of "js ''0b9d6a52-7c1e-4f0a-8a3e-5d2c9e4b1f77''" example_client example_parse
        "localStorage example_client" "session example_client"]
  show ?thesis
    using h k T by simp
qed

text \<open>
  C5 as it is stated fails where the generator returns the discarded identifier: the
  reloaded page takes it, and the session after the reset is the one before it.
\<close>

theorem clearChat_same_identifier_counterexample:
  "localStorage example_client ''session_id'' = Some (session example_client) \<and>
   session (clearChat (session example_client) example_client) = session example_client \<and>
   localStorage (clearChat (session example_client) example_client) ''session_id''
     = localStorage example_client ''session_id''"
  by (simp add: clearChat_def page_load_def init_session_def clearChat_storage_def
      example_client_def)

subsection \<open>Restoring on mount\<close>

lemma restore_messages_cases:
  "localStorage st ''chat_messages'' = None \<Longrightarrow>
     restore_messages J st = Inr (st\<lparr>messages := [agent_msg greeting]\<rparr>)"
  "localStorage st ''chat_messages'' = Some m \<Longrightarrow> m \<noteq> [] \<Longrightarrow> parse_messages J m = Some ms \<Longrightarrow>
     restore_messages J st = Inr (st\<lparr>messages := ms\<rparr>)"
  by (simp_all add: restore_messages_def truthy_def)

lemma restore_slots_cases:
  "localStorage st ''chat_slots'' = None \<Longrightarrow> restore_slots J st = Inr st"
  "localStorage st ''chat_slots'' = Some s \<Longrightarrow> s \<noteq> [] \<Longrightarrow> parse_slots J s = Some ss \<Longrightarrow>
     restore_slots J st = Inr (st\<lparr>slots := ss\<rparr>)"
  by (simp_all add: restore_slots_def truthy_def)

lemma restore_booking_cases:
  "localStorage st ''chat_booking'' = None \<Longrightarrow> restore_booking J st = Inr st"
  "localStorage st ''chat_booking'' = Some b \<Longrightarrow> b \<noteq> [] \<Longrightarrow> parse_booking J b = Some d \<Longrightarrow>
     restore_booking J st = Inr (st\<lparr>bookingDetails := Some d\<rparr>)"
  by (simp_all add: restore_booking_def truthy_def)

text \<open>
  C7. Let each of the three keys either be absent from the storage or hold a text that is
  not empty and that \<open>JSON.parse\<close> accepts. Then the mount effect ends normally and sets
  the initialised flag. The transcript is the parsed value of \<open>chat_messages\<close> when the
  key is present, and the one fixed agent greeting when it is absent; the slot list and
  the booking details are the parsed values of \<open>chat_slots\<close> and \<open>chat_booking\<close> when
  present, and stay as they were when absent. The transcript is empty afterwards only if
  the stored transcript was the empty list.
\<close>

theorem restore_on_mount:
  assumes m: "\<forall>m. localStorage st ''chat_messages'' = Some m \<longrightarrow> m \<noteq> [] \<and> parse_messages J m \<noteq> None"
    and s: "\<forall>s. localStorage st ''chat_slots'' = Some s \<longrightarrow> s \<noteq> [] \<and> parse_slots J s \<noteq> None"
    and b: "\<forall>b. localStorage st ''chat_booking'' = Some b \<longrightarrow> b \<noteq> [] \<and> parse_booking J b \<noteq> None"
  shows "\<exists>st'. restore J st = Inr st' \<and> initialized st' \<and>
           (case localStorage st ''chat_messages'' of
              None \<Rightarrow> messages st' = [agent_msg greeting]
            | Some m \<Rightarrow> parse_messages J m = Some (messages st')) \<and>
           (case localStorage st ''chat_slots'' of
              None \<Rightarrow> slots st' = slots st
            | Some s \<Rightarrow> parse_slots J s = Some (slots st')) \<and>
           (case localStorage st ''chat_booking'' of
              None \<Rightarrow> bookingDetails st' = bookingDetails st
            | Some b \<Rightarrow> parse_booking J b = bookingDetails st' \<and> bookingDetails st' \<noteq> None) \<and>
           (messages st' = [] \<longrightarrow>
              (\<exists>m. localStorage st ''chat_messages'' = Some m \<and> parse_messages J m = Some []))"
proof -
  obtain st1 where 1: "restore_messages J st = Inr st1"
    "localStorage st1 = localStorage st" "slots st1 = slots st"
    "bookingDetails st1 = bookingDetails st"
    "case localStorage st ''chat_messages'' of
       None \<Rightarrow> messages st1 = [agent_msg greeting]
     | Some m \<Rightarrow> parse_messages J m = Some (messages st1)"
  proof (cases "localStorage st ''chat_messages''")
    case None
    then show ?thesis
      using that [of "st\<lparr>messages := [agent_msg greeting]\<rparr>"]
      by (simp add: restore_messages_cases)
  next
    case (Some x)
    with m obtain ms where "x \<noteq> []" "parse_messages J x = Some ms" by auto
    with Some show ?thesis
      using that [of "st\<lparr>messages := ms\<rparr>"] by (simp add: restore_messages_cases)
  qed
  obtain st2 where 2: "restore_slots J st1 = Inr st2"
    "localStorage st2 = localStorage st" "messages st2 = messages st1"
    "bookingDetails st2 = bookingDetails st"
    "case localStorage st ''chat_slots'' of
       None \<Rightarrow> slots st2 = slots st
     | Some s \<Rightarrow> parse_slots J s = Some (slots st2)"
  proof (cases "localStorage st ''chat_slots''")
    case None
    then show ?thesis
      using that [of st1] 1 by (simp add: restore_slots_cases)
  next
    case (Some x)
    with s obtain ss where "x \<noteq> []" "parse_slots J x = Some ss" by auto
    with Some show ?thesis
      using that [of "st1\<lparr>slots := ss\<rparr>"] 1 by (simp add: restore_slots_cases)
  qed
  obtain st3 where 3: "restore_booking J st2 = Inr st3"
    "messages st3 = messages st1" "slots st3 = slots st2"
    "case localStorage st ''chat_booking'' of
       None \<Rightarrow> bookingDetails st3 = bookingDetails st
     | Some b \<Rightarrow> parse_booking J b = bookingDetails st3 \<and> bookingDetails st3 \<noteq> None"
  proof (cases "localStorage st ''chat_booking''")
    case None
    then show ?thesis
      using that [of st2] 2 by (simp add: restore_booking_cases)
  next
    case (Some x)
    with b obtain d where "x \<noteq> []" "parse_booking J x = Some d" by auto
    with Some show ?thesis
      using that [of "st2\<lparr>bookingDetails := Some d\<rparr>"] 2 by (simp add: restore_booking_cases)
  qed
  have r: "restore J st = Inr (st3\<lparr>initialized := True\<rparr>)"
    by (simp add: restore_def 1 2 3)
  have e: "messages st3 = [] \<longrightarrow>
      (\<exists>m. localStorage st ''chat_messages'' = Some m \<and> parse_messages J m = Some [])"
    using 1(5) 3(2) by (cases "localStorage st ''chat_messages''") (auto simp: agent_msg_def)
  show ?thesis
    using r 1(5) 2(5) 3 e
    by (intro exI [of _ "st3\<lparr>initialized := True\<rparr>"]) (simp split: option.splits)
qed

theorem restore_on_mount_witness:
  "(\<exists>st'. restore example_parse (page_load (js ''0b9d6a52'') Map.empty) = Inr st' \<and>
          initialized st' \<and> messages st' = [agent_msg greeting] \<and> slots st' = [] \<and>
          bookingDetails st' = None) \<and>
   (\<exists>st'. restore example_parse (page_load (js ''0b9d6a52'') example_storage) = Inr st' \<and>
          initialized st' \<and> messages st' = [user_msg (js ''hi'')] \<and> slots st' = [] \<and>
          bookingDetails st' = None)"
proof -
  let ?fresh = "page_load (js ''0b9d6a52'') Map.empty"
  let ?stored = "page_load (js ''0b9d6a52'') example_storage"
  have f: "localStorage ?fresh ''chat_messages'' = None" "localStorage ?fresh ''chat_slots'' = None"
    "localStorage ?fresh ''chat_booking'' = None" "slots ?fresh = []" "bookingDetails ?fresh = None"
    by (simp_all add: page_load_def init_session_def)
  have g: "localStorage ?stored ''chat_messages'' = Some stored_transcript"
    "localStorage ?stored ''chat_slots'' = Some (js ''[]'')"
    "localStorage ?stored ''chat_booking'' = None" "slots ?stored = []"
    "bookingDetails ?stored = None"
    by (simp_all add: page_load_def init_session_def example_storage_def js_def)
  have p: "parse_messages example_parse stored_transcript = Some [user_msg (js ''hi'')]"
    "parse_slots example_parse (js ''[]'') = Some []"
    by (simp_all add: example_parse_def stored_transcript_def js_def)
  have n: "stored_transcript \<noteq> []" "js ''[]'' \<noteq> []"
    by (simp_all add: stored_transcript_def js_def)
  have 1: "\<exists>st'. restore example_parse ?fresh = Inr st' \<and>
          initialized st' \<and> messages st' = [agent_msg greeting] \<and> slots st' = [] \<and>
          bookingDetails st' = None"
    using restore_on_mount [of ?fresh example_parse] by (auto simp: f)
  have 2: "\<exists>st'. restore example_parse ?stored = Inr st' \<and>
          initialized st' \<and> messages st' = [user_msg (js ''hi'')] \<and> slots st' = [] \<and>
          bookingDetails st' = None"
    using restore_on_mount [of ?stored example_parse] n by (auto simp: g p)
  show ?thesis
    using 1 2 by blast
qed

subsection \<open>The fields that the components read\<close>

lemma property_absent: "k \<notin> set (map fst ob) \<Longrightarrow> property ob k = Undefined"
  by (simp add: property_def map_of_eq_None_iff [THEN iffD2])

lemma onSelect_doctor_cong:
  "property d1 ''name'' = property d2 ''name'' \<Longrightarrow>
   onSelect_doctor net d1 = onSelect_doctor net d2"
  by (rule ext) (simp add: onSelect_doctor_def)

lemma map_eq_Nil_both: "map f xs = map g ys \<Longrightarrow> xs = [] \<longleftrightarrow> ys = []"
  by (cases xs; cases ys) auto

lemma SlotSelector_reads:
  assumes "map (\<lambda>s. (property s ''start_time'', property s ''doctor_name'')) ss1
           = map (\<lambda>s. (property s ''start_time'', property s ''doctor_name'')) ss2"
  shows "SlotSelector ss1 onSelect = SlotSelector ss2 onSelect"
proof -
  let ?k = "\<lambda>s. (property s ''start_time'', property s ''doctor_name'')"
  let ?h = "\<lambda>(a, b). \<lparr>slot_click = onSelect a, slot_label = a, slot_sublabel = b\<rparr>"
  have e: "ss1 = [] \<longleftrightarrow> ss2 = []"
    using assms by (rule map_eq_Nil_both)
  have "map (?h \<circ> ?k) ss1 = map (?h \<circ> ?k) ss2"
    using assms by (metis map_map)
  then show ?thesis
    using e by (simp add: SlotSelector_def comp_def)
qed

lemma DoctorCard_reads:
  assumes "property d1 ''image'' = property d2 ''image''"
    and "property d1 ''name'' = property d2 ''name''"
    and "property d1 ''specialization'' = property d2 ''specialization''"
    and "property d1 ''rating'' = property d2 ''rating''"
  shows "DoctorCard d1 (onSelect_doctor net) = DoctorCard d2 (onSelect_doctor net)"
  using assms onSelect_doctor_cong [OF assms(2), of net]
  by (simp add: DoctorCard_def)

lemma cards_of_DoctorList: "cards_of (DoctorList ds onSelect) = map (\<lambda>d. DoctorCard d onSelect) ds"
  by (simp add: DoctorList_def comp_def)

lemma DoctorList_reads:
  assumes "map (\<lambda>d. (property d ''image'', property d ''name'',
                     property d ''specialization'', property d ''rating'')) ds1
           = map (\<lambda>d. (property d ''image'', property d ''name'',
                     property d ''specialization'', property d ''rating'')) ds2"
  shows "cards_of (DoctorList ds1 (onSelect_doctor net))
         = cards_of (DoctorList ds2 (onSelect_doctor net))"
  using assms unfolding cards_of_DoctorList
proof (induction ds1 arbitrary: ds2)
  case Nil
  then show ?case by simp
next
  case (Cons d ds1)
  then obtain d' ds2' where ds2: "ds2 = d' # ds2'" by (cases ds2) auto
  with Cons.prems have h: "property d ''image'' = property d' ''image''"
    "property d ''name'' = property d' ''name''"
    "property d ''specialization'' = property d' ''specialization''"
    "property d ''rating'' = property d' ''rating''"
    and t: "map (\<lambda>d. (property d ''image'', property d ''name'',
                     property d ''specialization'', property d ''rating'')) ds1
           = map (\<lambda>d. (property d ''image'', property d ''name'',
                     property d ''specialization'', property d ''rating'')) ds2'"
    by simp_all
  have c: "DoctorCard d (onSelect_doctor net) = DoctorCard d' (onSelect_doctor net)"
    using h by (intro DoctorCard_reads)
  with Cons.IH [OF t] ds2 show ?case
    by simp
qed

text \<open>
  C6, as the code has it. What \<open>SlotSelector\<close> renders is determined by the
  \<open>start_time\<close> and the \<open>doctor_name\<close> of each slot. What \<open>DoctorCard\<close> renders in the
  chat screen, and so each card of \<open>DoctorList\<close>, is determined by the \<open>image\<close>, \<open>name\<close>,
  \<open>specialization\<close> and \<open>rating\<close> of the doctor. On a slot that carries exactly the
  documented fields \<open>doctor_name\<close> reads as undefined, and on a doctor that carries
  exactly the documented fields \<open>image\<close> reads as undefined.
\<close>

theorem components_read_fields:
  "(map (\<lambda>s. (property s ''start_time'', property s ''doctor_name'')) ss1
      = map (\<lambda>s. (property s ''start_time'', property s ''doctor_name'')) ss2
    \<longrightarrow> SlotSelector ss1 onSelect = SlotSelector ss2 onSelect) \<and>
   (property d1 ''image'' = property d2 ''image'' \<and>
    property d1 ''name'' = property d2 ''name'' \<and>
    property d1 ''specialization'' = property d2 ''specialization'' \<and>
    property d1 ''rating'' = property d2 ''rating''
    \<longrightarrow> DoctorCard d1 (onSelect_doctor net) = DoctorCard d2 (onSelect_doctor net)) \<and>
   (map (\<lambda>d. (property d ''image'', property d ''name'',
              property d ''specialization'', property d ''rating'')) ds1
      = map (\<lambda>d. (property d ''image'', property d ''name'',
              property d ''specialization'', property d ''rating'')) ds2
    \<longrightarrow> cards_of (DoctorList ds1 (onSelect_doctor net))
        = cards_of (DoctorList ds2 (onSelect_doctor net))) \<and>
   (set (map fst s) = set slot_payload_fields \<longrightarrow> property s ''doctor_name'' = Undefined) \<and>
   (set (map fst d) = set doctor_payload_fields \<longrightarrow> property d ''image'' = Undefined)"
proof (intro conjI impI)
  assume "set (map fst s) = set slot_payload_fields"
  then show "property s ''doctor_name'' = Undefined"
    by (intro property_absent) (simp add: slot_payload_fields_def)
next
  assume "set (map fst d) = set doctor_payload_fields"
  then show "property d ''image'' = Undefined"
    by (intro property_absent) (simp add: doctor_payload_fields_def)
qed (auto intro: SlotSelector_reads DoctorList_reads DoctorCard_reads)

theorem components_read_fields_witness:
  "SlotSelector [example_slot] id = SlotSelector [short_slot] id \<and>
   DoctorCard example_doctor (onSelect_doctor (\<lambda>r. Rejects))
     = DoctorCard short_doctor (onSelect_doctor (\<lambda>r. Rejects)) \<and>
   cards_of (DoctorList [example_doctor] (onSelect_doctor (\<lambda>r. Rejects)))
     = cards_of (DoctorList [short_doctor] (onSelect_doctor (\<lambda>r. Rejects))) \<and>
   set (map fst example_slot) = set slot_payload_fields \<and>
   property example_slot ''doctor_name'' = Undefined \<and>
   set (map fst example_doctor) = set doctor_payload_fields \<and>
   property example_doctor ''image'' = Undefined"
proof -
  have a: "map (\<lambda>s. (property s ''start_time'', property s ''doctor_name'')) [example_slot]
      = map (\<lambda>s. (property s ''start_time'', property s ''doctor_name'')) [short_slot]"
    by (simp add: example_slot_def short_slot_def property_def)
  have b: "map (\<lambda>d. (property d ''image'', property d ''name'',
              property d ''specialization'', property d ''rating'')) [example_doctor]
      = map (\<lambda>d. (property d ''image'', property d ''name'',
              property d ''specialization'', property d ''rating'')) [short_doctor]"
    by (simp add: example_doctor_def short_doctor_def property_def)
  have c: "property example_doctor ''image'' = property short_doctor ''image'' \<and>
    property example_doctor ''name'' = property short_doctor ''name'' \<and>
    property example_doctor ''specialization'' = property short_doctor ''specialization'' \<and>
    property example_doctor ''rating'' = property short_doctor ''rating''"
    by (simp add: example_doctor_def short_doctor_def property_def)
  have d: "set (map fst example_slot) = set slot_payload_fields"
    by (simp add: example_slot_def slot_payload_fields_def)
  have e: "set (map fst example_doctor) = set doctor_payload_fields"
    by (simp add: example_doctor_def doctor_payload_fields_def)
  note T = components_read_fields [of "[example_slot]" "[short_slot]" id
      example_doctor short_doctor "\<lambda>r. Rejects" "[example_doctor]" "[short_doctor]"
      example_slot example_doctor]
  show ?thesis
    using a b c d e T by blast
qed

text \<open>
  C6 as it is stated fails: two slots that agree on every documented field are rendered
  differently when they differ in \<open>doctor_name\<close>, and likewise two doctors that differ in
  \<open>image\<close>.
\<close>

theorem components_read_undocumented_fields_counterexample:
  "property example_slot ''start_time'' = property named_slot ''start_time'' \<and>
   property example_slot ''end_time'' = property named_slot ''end_time'' \<and>
   property example_slot ''doctor_id'' = property named_slot ''doctor_id'' \<and>
   property example_slot ''available'' = property named_slot ''available'' \<and>
   SlotSelector [example_slot] id \<noteq> SlotSelector [named_slot] id \<and>
   property example_doctor ''doctor_id'' = property pictured_doctor ''doctor_id'' \<and>
   property example_doctor ''name'' = property pictured_doctor ''name'' \<and>
   property example_doctor ''specialization'' = property pictured_doctor ''specialization'' \<and>
   property example_doctor ''rating'' = property pictured_doctor ''rating'' \<and>
   img_src (DoctorCard example_doctor id) \<noteq> img_src (DoctorCard pictured_doctor id)"
  by (simp add: example_slot_def named_slot_def example_doctor_def pictured_doctor_def
      property_def SlotSelector_def DoctorCard_def)

section \<open>Properties of the booking ledger\<close>

lemma no_double_booking_insert:
  assumes "no_double_booking L" and "ledger_insert b L = Inr L'"
  shows "no_double_booking L'"
proof -
  from assms(2) have free: "\<forall>b' \<in> set L. status b' = confirmed \<longrightarrow> slot_key b' \<noteq> slot_key b"
    and L': "L' = L @ [b]"
    by (auto simp: ledger_insert_def split: if_splits)
  show ?thesis
    unfolding no_double_booking_def L'
  proof (intro allI impI)
    fix i j
    assume i: "i < length (L @ [b])" and j: "j < length (L @ [b])"
      and h: "i \<noteq> j \<and> status ((L @ [b]) ! i) = confirmed \<and> status ((L @ [b]) ! j) = confirmed"
    consider (both) "i < length L" "j < length L"
      | (left) "i = length L" "j < length L"
      | (right) "i < length L" "j = length L"
      using i j h by (auto simp: less_Suc_eq)
    then show "slot_key ((L @ [b]) ! i) \<noteq> slot_key ((L @ [b]) ! j)"
    proof cases
      case both
      with assms(1) h show ?thesis
        by (simp add: no_double_booking_def nth_append)
    next
      case left
      with h free show ?thesis
        by (metis nth_append nth_append_length nth_mem)
    next
      case right
      with h free show ?thesis
        by (metis nth_append nth_append_length nth_mem)
    qed
  qed
qed

lemma no_double_booking_cancel:
  assumes "no_double_booking L" and "ledger_cancel bid L = Inr L'"
  shows "no_double_booking L'"
proof -
  let ?f = "\<lambda>b'. if booking_id b' = bid then b'\<lparr>status := cancelled\<rparr> else b'"
  from assms(2) have L': "L' = map ?f L"
    by (auto simp: ledger_cancel_def split: option.splits if_splits)
  have k: "slot_key (?f x) = slot_key x" for x
    by (simp add: slot_key_def)
  have s: "status (?f x) = confirmed \<Longrightarrow> status x = confirmed" for x
    by (simp split: if_splits)
  show ?thesis
    unfolding no_double_booking_def L'
  proof (intro allI impI)
    fix i j
    assume i: "i < length (map ?f L)" and j: "j < length (map ?f L)"
      and h: "i \<noteq> j \<and> status (map ?f L ! i) = confirmed \<and> status (map ?f L ! j) = confirmed"
    from i j h have "status (L ! i) = confirmed" "status (L ! j) = confirmed"
      using s [of "L ! i"] s [of "L ! j"] by simp_all
    with assms(1) i j h have "slot_key (L ! i) \<noteq> slot_key (L ! j)"
      by (simp add: no_double_booking_def)
    with i j show "slot_key (map ?f L ! i) \<noteq> slot_key (map ?f L ! j)"
      using k [of "L ! i"] k [of "L ! j"] by simp
  qed
qed

lemma book_ledger:
  "book directory clk L r = Inr (b, L') \<Longrightarrow> ledger_insert b L = Inr L'"
  by (auto simp: book_def Let_def split: sum.splits option.splits)

lemma cancel_ledger:
  "cancel L token = Inr (b, L') \<Longrightarrow> \<exists>bid. ledger_cancel bid L = Inr L'"
  by (auto simp: cancel_def split: sum.splits if_splits)

lemma no_double_booking_step:
  assumes "no_double_booking L"
  shows "no_double_booking (attempt_step directory L a)"
proof (cases a)
  case (Book clk r)
  show ?thesis
  proof (cases "book directory clk L r")
    case (Inl e)
    with Book assms show ?thesis by (simp add: attempt_step_def)
  next
    case (Inr p)
    then obtain b L' where "book directory clk L r = Inr (b, L')" by (cases p) simp
    with Book assms show ?thesis
      by (auto simp: attempt_step_def dest!: book_ledger intro: no_double_booking_insert)
  qed
next
  case (Cancel token)
  show ?thesis
  proof (cases "cancel L token")
    case (Inl e)
    with Cancel assms show ?thesis by (simp add: attempt_step_def)
  next
    case (Inr p)
    then obtain b L' where "cancel L token = Inr (b, L')" by (cases p) simp
    with Cancel assms show ?thesis
      by (auto simp: attempt_step_def dest!: cancel_ledger intro: no_double_booking_cancel)
  qed
qed

lemma no_double_booking_run:
  "no_double_booking L \<Longrightarrow> no_double_booking (run_attempts directory L as)"
  unfolding run_attempts_def
  by (induction as arbitrary: L) (simp_all add: no_double_booking_step)

text \<open>
  C2. The empty Ledger has no double booking. From a Ledger without double booking,
  any sequence of book and cancel attempts, each taking effect as a whole in its turn,
  leads to a Ledger without double booking: two confirmed Bookings of it that share
  \<open>(doctor_id, date, start_time)\<close> are the same Booking.
\<close>

theorem no_double_booking_invariant:
  "no_double_booking [] \<and>
   (no_double_booking L \<longrightarrow>
      no_double_booking (run_attempts directory L as) \<and>
      (\<forall>b \<in> set (run_attempts directory L as). \<forall>b' \<in> set (run_attempts directory L as).
         status b = confirmed \<and> status b' = confirmed \<and> slot_key b = slot_key b' \<longrightarrow> b = b'))"
proof -
  have e: "no_double_booking []"
    by (simp add: no_double_booking_def)
  have u: "\<forall>b \<in> set M. \<forall>b' \<in> set M.
         status b = confirmed \<and> status b' = confirmed \<and> slot_key b = slot_key b' \<longrightarrow> b = b'"
    if "no_double_booking M" for M
  proof (intro ballI impI)
    fix b b'
    assume "b \<in> set M" "b' \<in> set M"
      and h: "status b = confirmed \<and> status b' = confirmed \<and> slot_key b = slot_key b'"
    then obtain i j where "i < length M" "M ! i = b" "j < length M" "M ! j = b'"
      by (auto simp: in_set_conv_nth)
    with that h show "b = b'"
      unfolding no_double_booking_def by (metis)
  qed
  show ?thesis
    using e u no_double_booking_run by blast
qed

lemmas scenario_defs =
  book_def compute_slots_def get_doctor_def example_directory_def example_request_def
  rival_request_def example_clock_def weekday_of_def find_confirmed_def ledger_insert_def
  example_booking_def rival_booking_def slot_key_def cancel_def find_by_code_or_id_def
  ledger_cancel_def Let_def

lemma first_book:
  "book example_directory example_clock [] example_request
     = Inr (example_booking, [example_booking])"
  by (simp add: scenario_defs)

lemma second_book:
  "book example_directory example_clock [example_booking] rival_request
     = Inl SlotNoLongerAvailable"
  by (simp add: scenario_defs)

lemma cancel_first:
  "cancel [example_booking] ''CDF321''
     = Inr (example_booking\<lparr>status := cancelled\<rparr>, [example_booking\<lparr>status := cancelled\<rparr>])"
  by (simp add: scenario_defs)

lemma book_after_cancel:
  "book example_directory example_clock [example_booking\<lparr>status := cancelled\<rparr>] rival_request
     = Inr (rival_booking, [example_booking\<lparr>status := cancelled\<rparr>, rival_booking])"
  by (simp add: scenario_defs)

theorem no_double_booking_invariant_witness:
  "no_double_booking [] \<and>
   run_attempts example_directory []
       [Book example_clock example_request, Book example_clock rival_request]
     = [example_booking] \<and>
   no_double_booking [example_booking] \<and>
   run_attempts example_directory []
       [Book example_clock example_request, Cancel ''CDF321'', Book example_clock rival_request]
     = [example_booking\<lparr>status := cancelled\<rparr>, rival_booking] \<and>
   no_double_booking [example_booking\<lparr>status := cancelled\<rparr>, rival_booking]"
proof -
  have a: "run_attempts example_directory []
       [Book example_clock example_request, Book example_clock rival_request]
     = [example_booking]"
    by (simp add: run_attempts_def attempt_step_def first_book second_book)
  have b: "run_attempts example_directory []
       [Book example_clock example_request, Cancel ''CDF321'', Book example_clock rival_request]
     = [example_booking\<lparr>status := cancelled\<rparr>, rival_booking]"
    by (simp add: run_attempts_def attempt_step_def first_book cancel_first book_after_cancel)
  note T = no_double_booking_invariant [of "[]" example_directory]
  have e: "no_double_booking []"
    using T by blast
  have 1: "no_double_booking [example_booking]"
    using T [of "[Book example_clock example_request, Book example_clock rival_request]"] e
    unfolding a by blast
  have 2: "no_double_booking [example_booking\<lparr>status := cancelled\<rparr>, rival_booking]"
    using T [of "[Book example_clock example_request, Cancel ''CDF321'',
                  Book example_clock rival_request]"] e
    unfolding b by blast
  show ?thesis
    using e a b 1 2 by blast
qed

end
